theory Spec2Isabelle
  imports Complex_Main "HOL-Library.Multiset"
begin

section \<open>Python values used by \<open>imageomics/wds.py\<close>\<close>

text \<open>
  Exceptions are values. The constructors are the exception classes that the
  code of \<open>ShardWriter\<close> can raise itself (a missing attribute, a failed
  assertion, a failed \<open>%\<close> formatting) together with the classes the
  collaborators outside the repository may raise (\<open>open\<close>, the archive writer).
\<close>

datatype exn =
    AttributeError string
  | TypeError string
  | ValueError string
  | AssertionError
  | OSError string
  | OtherError string

type_synonym 'a result = "exn + 'a"

text \<open>
  An instance attribute is either bound to a value or absent: \<open>del self.x\<close>
  removes the binding, and reading an absent attribute raises \<open>AttributeError\<close>.
\<close>

datatype 'a attr = Absent | Attr 'a

text \<open>
  \<open>maxsize\<close> is annotated \<open>float\<close> (default \<open>3e9\<close>). Python compares an
  \<open>int\<close> with a \<open>float\<close> by exact value; the non-finite floats are kept
  apart, since \<open>n >= inf\<close> and \<open>n >= nan\<close> are false and \<open>n >= -inf\<close> is true.
\<close>

datatype pyfloat = Finite real | PosInf | NegInf | NaN

fun int_ge_float :: "int \<Rightarrow> pyfloat \<Rightarrow> bool" where
  "int_ge_float n (Finite r) = (r \<le> real_of_int n)"
| "int_ge_float n PosInf = False"
| "int_ge_float n NegInf = True"
| "int_ge_float n NaN = False"

section \<open>The \<open>%\<close> operator on a pattern and one integer\<close>

text \<open>
  \<open>self.pattern % self.shard\<close> is Python's printf-style formatting with a single
  integer argument. The fragment modelled exactly is: literal text, \<open>%%\<close>, and
  conversions \<open>%[flags][width]type\<close> with flags among \<open>- + space # 0\<close>, a width
  of at most nine decimal digits and a type among \<open>d i u s r a\<close>. A pattern with any
  other directive (a precision, a length modifier, \<open>*\<close>, a mapping key, the
  hexadecimal, octal, character and float conversions, an incomplete or unknown
  directive) is handed to the environment's \<open>fmt_ext\<close>.
\<close>

fun dec :: "nat \<Rightarrow> string" where
  "dec n = (if n < 10 then [''0123456789'' ! n]
            else dec (n div 10) @ [''0123456789'' ! (n mod 10)])"

declare dec.simps [simp del]

definition py_str :: "int \<Rightarrow> string" where
  "py_str i = (if i < 0 then CHR ''-'' # dec (nat (- i)) else dec (nat i))"

datatype seg =
    Lit char
  | Conv (flags: string) (width: nat) (ctype: char)

definition is_flag :: "char \<Rightarrow> bool" where
  "is_flag c = (c \<in> set ''-+ #0'')"

definition is_digit :: "char \<Rightarrow> bool" where
  "is_digit c = (c \<in> set ''0123456789'')"

definition digit_val :: "char \<Rightarrow> nat" where
  "digit_val c = (of_char c - 48)"

definition width_of :: "string \<Rightarrow> nat" where
  "width_of ds = foldl (\<lambda>a c. 10 * a + digit_val c) 0 ds"

function py_segments :: "string \<Rightarrow> seg list option" where
  "py_segments [] = Some []"
| "py_segments (c # cs) =
     (if c \<noteq> CHR ''%'' then map_option (Cons (Lit c)) (py_segments cs)
      else (case cs of
          [] \<Rightarrow> None
        | d # ds \<Rightarrow>
            if d = CHR ''%'' then map_option (Cons (Lit CHR ''%'')) (py_segments ds)
            else
              (let fl = takeWhile is_flag cs;
                   r1 = dropWhile is_flag cs;
                   wd = takeWhile is_digit r1;
                   r2 = dropWhile is_digit r1
               in (case r2 of
                     [] \<Rightarrow> None
                   | t # r3 \<Rightarrow>
                       if t \<in> set ''diusra'' \<and> length wd \<le> 9
                       then map_option (Cons (Conv fl (width_of wd) t)) (py_segments r3)
                       else None))))"
  by pat_completeness auto

termination
proof (relation "measure length")
  show "wf (measure length)" by simp
next
  fix c :: char and cs :: string
  show "(cs, c # cs) \<in> measure length" by simp
next
  fix c :: char and cs :: string and d :: char and ds :: string
  assume "cs = d # ds"
  then show "(ds, c # cs) \<in> measure length" by simp
next
  fix c :: char and cs fl r1 wd r2 :: string and t :: char and r3 :: string
  assume r1: "r1 = dropWhile is_flag cs" and r2: "r2 = dropWhile is_digit r1"
    and r3: "r2 = t # r3"
  have "length r2 \<le> length cs"
    unfolding r1 r2
    by (meson length_dropWhile_le order_trans)
  with r3 show "(r3, c # cs) \<in> measure length" by simp
qed

declare py_segments.simps [simp del]

definition is_conv :: "seg \<Rightarrow> bool" where
  "is_conv s = (case s of Lit _ \<Rightarrow> False | Conv _ _ _ \<Rightarrow> True)"

definition render :: "int \<Rightarrow> seg \<Rightarrow> string" where
  "render i s =
     (case s of
        Lit c \<Rightarrow> [c]
      | Conv fl w t \<Rightarrow>
          if t \<in> set ''sra'' then
            (let body = py_str i; pad = w - length body
             in if CHR ''-'' \<in> set fl then body @ replicate pad CHR '' ''
                else replicate pad CHR '' '' @ body)
          else
            (let digits = dec (nat \<bar>i\<bar>);
                 sign = (if i < 0 then ''-''
                         else if CHR ''+'' \<in> set fl then ''+''
                         else if CHR '' '' \<in> set fl then '' ''
                         else '''');
                 pad = w - (length digits + length sign)
             in if CHR ''-'' \<in> set fl then sign @ digits @ replicate pad CHR '' ''
                else if CHR ''0'' \<in> set fl then sign @ replicate pad CHR ''0'' @ digits
                else replicate pad CHR '' '' @ sign @ digits))"

section \<open>The world outside the writer\<close>

text \<open>
  Every call that leaves the class is recorded, in order, as an event: \<open>open\<close>,
  the two \<open>logger.info\<close> calls, and the construction, \<open>write\<close> and \<open>close\<close>
  of the archive writer (\<open>webdataset.TarWriter\<close>). An event records the call,
  whether or not it raised.
\<close>

datatype ('k, 'o) event =
    EOpen string
  | ELogInfo string "string option"
  | ETarWriter nat 'k
  | ETarWrite nat 'o
  | ETarClose nat

text \<open>
  The shared state: the value of the \<open>multiprocessing.Value\<close> passed as
  \<open>shard_counter\<close>, the number of streams opened so far (a stream is named by the
  number it received), and the trace of events.

  Modelled from the spec: the shared counter is not constructed in this repository;
  the specification describes it as an opaque lock-protected cell with
  \<open>get() -> integer\<close> and \<open>set(integer)\<close>, so its value is an unbounded integer.
\<close>

record ('k, 'o) world =
  counter :: int
  fresh :: nat
  trace :: "('k, 'o) event list"

text \<open>
  The collaborators. Each decides from the trace so far and its arguments whether
  the call raises: \<open>None\<close> (or \<open>Inr\<close>) is a normal return.
\<close>

record ('k, 'o) env =
  pid :: nat
  fmt_ext :: "string \<Rightarrow> int \<Rightarrow> string result"
  fs_open :: "('k, 'o) event list \<Rightarrow> string \<Rightarrow> exn option"
  tar_init :: "('k, 'o) event list \<Rightarrow> nat \<Rightarrow> 'k \<Rightarrow> exn option"
  tar_write :: "('k, 'o) event list \<Rightarrow> nat \<Rightarrow> 'o \<Rightarrow> int result"
  tar_close :: "('k, 'o) event list \<Rightarrow> nat \<Rightarrow> exn option"

definition py_format :: "('k, 'o) env \<Rightarrow> string \<Rightarrow> int \<Rightarrow> string result" where
  "py_format E p i =
     (case py_segments p of
        None \<Rightarrow> fmt_ext E p i
      | Some segs \<Rightarrow>
          if length (filter is_conv segs) = 0
          then Inl (TypeError ''not all arguments converted during string formatting'')
          else if length (filter is_conv segs) = 1
          then Inr (concat (map (render i) segs))
          else Inl (TypeError ''not enough arguments for format string''))"

section \<open>\<open>ShardWriter\<close>\<close>

text \<open>
  The instance. \<open>tarstream\<close>, \<open>shard\<close>, \<open>count\<close> and \<open>size\<close> are the
  attributes \<open>close\<close> deletes; \<open>tarstream\<close> holds \<open>None\<close> or an archive
  writer, named by its stream number. The fields \<open>total\<close>, \<open>count\<close> and
  \<open>size\<close> carry the suffix \<open>_n\<close>. \<open>shard_counter\<close> is the reference to
  the counter of the world.
\<close>

record 'k writer =
  kw :: 'k
  maxcount :: int
  maxsize :: pyfloat
  tarstream :: "nat option attr"
  pattern :: string
  total_n :: int
  count_n :: "int attr"
  size_n :: "int attr"
  fname :: "string option"
  shard :: "int attr"
  logger :: string

type_synonym ('a, 'k, 'o) outcome = "'a result \<times> 'k writer \<times> ('k, 'o) world"

definition emit :: "('k, 'o) event \<Rightarrow> ('k, 'o) world \<Rightarrow> ('k, 'o) world" where
  "emit e W = W\<lparr>trace := trace W @ [e]\<rparr>"

definition finish :: "('k, 'o) env \<Rightarrow> 'k writer \<Rightarrow> ('k, 'o) world \<Rightarrow> (unit, 'k, 'o) outcome" where
  "finish E w W =
     (case tarstream w of
        Absent \<Rightarrow> (Inl (AttributeError ''tarstream''), w, W)
      | Attr None \<Rightarrow> (Inr (), w, W)
      | Attr (Some h) \<Rightarrow>
          (case tar_close E (trace W) h of
             Some e \<Rightarrow> (Inl e, w, emit (ETarClose h) W)
           | None \<Rightarrow>
               (let W1 = emit (ELogInfo ''Closed shard %s.'' (fname w)) (emit (ETarClose h) W)
                in case fname w of
                     None \<Rightarrow> (Inl AssertionError, w, W1)
                   | Some f \<Rightarrow> (Inr (), w\<lparr>tarstream := Attr None\<rparr>, W1))))"

definition next_stream :: "('k, 'o) env \<Rightarrow> 'k writer \<Rightarrow> ('k, 'o) world \<Rightarrow> (unit, 'k, 'o) outcome" where
  "next_stream E w W =
     (case finish E w W of
        (Inl e, w1, W1) \<Rightarrow> (Inl e, w1, W1)
      | (Inr u, w1, W1) \<Rightarrow>
          (let w2 = w1\<lparr>shard := Attr (counter W1)\<rparr>;
               W2 = W1\<lparr>counter := counter W1 + 1\<rparr>
           in case py_format E (pattern w2) (counter W1) of
                Inl e \<Rightarrow> (Inl e, w2, W2)
              | Inr f \<Rightarrow>
                  (let w3 = w2\<lparr>fname := Some f\<rparr>
                   in case fs_open E (trace W2) f of
                        Some e \<Rightarrow> (Inl e, w3, emit (EOpen f) W2)
                      | None \<Rightarrow>
                          (let s = fresh W2;
                               W3 = emit (ELogInfo ''Opened shard %s.'' (Some f))
                                      ((emit (EOpen f) W2)\<lparr>fresh := s + 1\<rparr>)
                           in case tar_init E (trace W3) s (kw w3) of
                                Some e \<Rightarrow> (Inl e, w3, emit (ETarWriter s (kw w3)) W3)
                              | None \<Rightarrow>
                                  (Inr (),
                                   w3\<lparr>tarstream := Attr (Some s), count_n := Attr 0, size_n := Attr 0\<rparr>,
                                   emit (ETarWriter s (kw w3)) W3)))))"

text \<open>
  \<open>__init__\<close>: the attributes are bound in the order of the source, then
  \<open>next_stream\<close> runs. When it raises, no instance reaches the caller; what it did
  to the world stays.
\<close>

definition init ::
  "('k, 'o) env \<Rightarrow> string \<Rightarrow> int \<Rightarrow> pyfloat \<Rightarrow> 'k \<Rightarrow> ('k, 'o) world \<Rightarrow> 'k writer result \<times> ('k, 'o) world" where
  "init E pat mc ms k W =
     (let w = \<lparr>kw = k, maxcount = mc, maxsize = ms, tarstream = Attr None, pattern = pat,
               total_n = 0, count_n = Attr 0, size_n = Attr 0, fname = None, shard = Absent,
               logger = ''shard-writer(p'' @ dec (pid E) @ '')''\<rparr>
      in case next_stream E w W of
           (Inl e, w1, W1) \<Rightarrow> (Inl e, W1)
         | (Inr u, w1, W1) \<Rightarrow> (Inr w1, W1))"

text \<open>
  The test at the head of \<open>write\<close>. \<open>or\<close> evaluates from the left and stops at
  the first true operand, so \<open>count\<close> and \<open>size\<close> are read only when needed.
\<close>

definition rotation_due :: "'k writer \<Rightarrow> bool result" where
  "rotation_due w =
     (case tarstream w of
        Absent \<Rightarrow> Inl (AttributeError ''tarstream'')
      | Attr None \<Rightarrow> Inr True
      | Attr (Some h) \<Rightarrow>
          (case count_n w of
             Absent \<Rightarrow> Inl (AttributeError ''count'')
           | Attr c \<Rightarrow>
               if maxcount w \<le> c then Inr True
               else (case size_n w of
                       Absent \<Rightarrow> Inl (AttributeError ''size'')
                     | Attr s \<Rightarrow> Inr (int_ge_float s (maxsize w)))))"

text \<open>
  \<open>write\<close> is named \<open>write_sample\<close> here. Its tail comes first: the call
  of the archive writer and the three updates, in the order of the source.
\<close>

definition write_record :: "('k, 'o) env \<Rightarrow> 'k writer \<Rightarrow> 'o \<Rightarrow> ('k, 'o) world \<Rightarrow> (unit, 'k, 'o) outcome" where
  "write_record E w obj W =
     (case tarstream w of
        Absent \<Rightarrow> (Inl (AttributeError ''tarstream''), w, W)
      | Attr None \<Rightarrow> (Inl (AttributeError ''write''), w, W)
      | Attr (Some h) \<Rightarrow>
          (case tar_write E (trace W) h obj of
             Inl e \<Rightarrow> (Inl e, w, emit (ETarWrite h obj) W)
           | Inr n \<Rightarrow>
               (let W1 = emit (ETarWrite h obj) W
                in case count_n w of
                     Absent \<Rightarrow> (Inl (AttributeError ''count''), w, W1)
                   | Attr c \<Rightarrow>
                       (let w1 = w\<lparr>count_n := Attr (c + 1), total_n := total_n w + 1\<rparr>
                        in case size_n w1 of
                             Absent \<Rightarrow> (Inl (AttributeError ''size''), w1, W1)
                           | Attr s \<Rightarrow> (Inr (), w1\<lparr>size_n := Attr (s + n)\<rparr>, W1)))))"

definition write_sample :: "('k, 'o) env \<Rightarrow> 'k writer \<Rightarrow> 'o \<Rightarrow> ('k, 'o) world \<Rightarrow> (unit, 'k, 'o) outcome" where
  "write_sample E w obj W =
     (case rotation_due w of
        Inl e \<Rightarrow> (Inl e, w, W)
      | Inr b \<Rightarrow>
          (case (if b then next_stream E w W else (Inr (), w, W)) of
             (Inl e, w1, W1) \<Rightarrow> (Inl e, w1, W1)
           | (Inr u, w1, W1) \<Rightarrow> write_record E w1 obj W1))"

definition close :: "('k, 'o) env \<Rightarrow> 'k writer \<Rightarrow> ('k, 'o) world \<Rightarrow> (unit, 'k, 'o) outcome" where
  "close E w W =
     (case finish E w W of
        (Inl e, w1, W1) \<Rightarrow> (Inl e, w1, W1)
      | (Inr u, w1, W1) \<Rightarrow>
          (case tarstream w1 of
             Absent \<Rightarrow> (Inl (AttributeError ''tarstream''), w1, W1)
           | Attr t \<Rightarrow>
               (let w2 = w1\<lparr>tarstream := Absent\<rparr>
                in case shard w2 of
                     Absent \<Rightarrow> (Inl (AttributeError ''shard''), w2, W1)
                   | Attr i \<Rightarrow>
                       (let w3 = w2\<lparr>shard := Absent\<rparr>
                        in case count_n w3 of
                             Absent \<Rightarrow> (Inl (AttributeError ''count''), w3, W1)
                           | Attr c \<Rightarrow>
                               (let w4 = w3\<lparr>count_n := Absent\<rparr>
                                in case size_n w4 of
                                     Absent \<Rightarrow> (Inl (AttributeError ''size''), w4, W1)
                                   | Attr s \<Rightarrow> (Inr (), w4\<lparr>size_n := Absent\<rparr>, W1))))))"

definition enter :: "'k writer \<Rightarrow> 'k writer" where
  "enter w = w"

definition exit_ctx :: "('k, 'o) env \<Rightarrow> 'k writer \<Rightarrow> ('k, 'o) world \<Rightarrow> (unit, 'k, 'o) outcome" where
  "exit_ctx E w W = close E w W"

section \<open>Callers\<close>

text \<open>
  A caller that writes a list of records one after the other; the first call that
  raises ends the sequence, as an uncaught exception does.
\<close>

fun writes :: "('k, 'o) env \<Rightarrow> 'k writer \<Rightarrow> 'o list \<Rightarrow> ('k, 'o) world \<Rightarrow> (unit, 'k, 'o) outcome" where
  "writes E w [] W = (Inr (), w, W)"
| "writes E w (obj # objs) W =
     (case write_sample E w obj W of
        (Inl e, w1, W1) \<Rightarrow> (Inl e, w1, W1)
      | (Inr u, w1, W1) \<Rightarrow> writes E w1 objs W1)"

text \<open>
  \<open>with w as sink: body\<close>. \<open>__enter__\<close> returns the instance, the body runs, and
  \<open>__exit__\<close> is called once whether the body returned or raised. \<open>__exit__\<close>
  returns \<open>None\<close>, so an exception of the body is raised again after it; an
  exception of \<open>__exit__\<close> itself takes its place.
\<close>

definition with_block ::
  "('k, 'o) env \<Rightarrow> 'k writer \<Rightarrow> ('k writer \<Rightarrow> ('k, 'o) world \<Rightarrow> (unit, 'k, 'o) outcome) \<Rightarrow>
   ('k, 'o) world \<Rightarrow> (unit, 'k, 'o) outcome" where
  "with_block E w body W =
     (case body (enter w) W of
        (r, w1, W1) \<Rightarrow>
          (case exit_ctx E w1 W1 of
             (Inl e, w2, W2) \<Rightarrow> (Inl e, w2, W2)
           | (Inr u, w2, W2) \<Rightarrow> (r, w2, W2)))"

text \<open>\<open>w.finish(); w.finish()\<close>: the second call runs only when the first returned.\<close>

definition finish_twice :: "('k, 'o) env \<Rightarrow> 'k writer \<Rightarrow> ('k, 'o) world \<Rightarrow> (unit, 'k, 'o) outcome" where
  "finish_twice E w W =
     (case finish E w W of
        (Inl e, w1, W1) \<Rightarrow> (Inl e, w1, W1)
      | (Inr u, w1, W1) \<Rightarrow> finish E w1 W1)"

section \<open>Predicates used in the proofs\<close>


text \<open>
  What every instance between a successful \<open>__init__\<close> and \<open>close\<close> satisfies:
  the four deletable attributes are bound and a file name has been formatted.
\<close>

definition live :: "'k writer \<Rightarrow> bool" where
  "live w = (tarstream w \<noteq> Absent \<and> shard w \<noteq> Absent \<and> count_n w \<noteq> Absent \<and>
             size_n w \<noteq> Absent \<and> fname w \<noteq> None)"

section \<open>Concurrent claims on the shared counter\<close>










section \<open>An example environment\<close>

text \<open>
  Records are integers; the archive writer reports a non-negative record as its own
  size in bytes and raises on a negative one. Nothing else fails.
\<close>

definition example_env :: "(unit, int) env" where
  "example_env =
     \<lparr>pid = 7,
      fmt_ext = (\<lambda>p i. Inl (ValueError ''unsupported format character'')),
      fs_open = (\<lambda>t f. None),
      tar_init = (\<lambda>t s k. None),
      tar_write = (\<lambda>t h x. if x < 0 then Inl (OSError ''write failed'') else Inr x),
      tar_close = (\<lambda>t h. None)\<rparr>"

definition example_world :: "(unit, int) world" where
  "example_world = \<lparr>counter = 3, fresh = 0, trace = []\<rparr>"

text \<open>
  A writer with \<open>maxcount = 2\<close>, the two writes that fill its first shard, and a
  third write on which the archive writer raises.
\<close>

definition example_init :: "unit writer result \<times> (unit, int) world" where
  "example_init = init example_env ''shard-%06d.tar'' 2 (Finite 100) () example_world"

definition example_run :: "(unit, unit, int) outcome" where
  "example_run = writes example_env (projr (fst example_init)) [5, 5] (snd example_init)"


section \<open>What each operation changes\<close>


lemma finish_total: "finish E w W = (r, w', W') \<Longrightarrow> total_n w' = total_n w"
  by (auto simp: finish_def Let_def split: attr.splits option.splits)


lemma finish_live: "finish E w W = (r, w1, W1) \<Longrightarrow> live w \<Longrightarrow> live w1"
  by (auto simp: finish_def live_def Let_def split: attr.splits option.splits)

lemma next_stream_total: "next_stream E w W = (r, w', W') \<Longrightarrow> total_n w' = total_n w"
  by (auto simp: next_stream_def Let_def split: prod.splits sum.splits option.splits
      dest: finish_total)



lemma next_stream_live: "next_stream E w W = (r, w1, W1) \<Longrightarrow> live w \<Longrightarrow> live w1"
  by (auto simp: next_stream_def Let_def live_def split: prod.splits sum.splits option.splits
      dest!: finish_live [unfolded live_def])

lemma write_record_total:
  "write_record E w obj W = (Inr u, w', W') \<Longrightarrow> total_n w' = total_n w + 1"
  by (auto simp: write_record_def Let_def split: attr.splits option.splits sum.splits)

lemma write_record_live: "write_record E w x W = (r, w1, W1) \<Longrightarrow> live w \<Longrightarrow> live w1"
  by (auto simp: write_record_def Let_def live_def split: attr.splits option.splits sum.splits)



lemma write_sample_total:
  "write_sample E w obj W = (Inr u, w', W') \<Longrightarrow> total_n w' = total_n w + 1"
  by (auto simp: write_sample_def split: sum.splits prod.splits if_splits
      dest!: write_record_total next_stream_total)

lemma write_sample_live: "write_sample E w x W = (r, w1, W1) \<Longrightarrow> live w \<Longrightarrow> live w1"
  by (auto simp: write_sample_def split: sum.splits prod.splits if_splits
      dest: next_stream_live write_record_live)

lemma writes_total:
  "writes E w objs W = (Inr u, w', W') \<Longrightarrow> total_n w' = total_n w + int (length objs)"
proof (induction objs arbitrary: w W)
  case Nil
  then show ?case by simp
next
  case (Cons obj objs)
  from Cons.prems obtain v w1 W1 where
    step: "write_sample E w obj W = (Inr v, w1, W1)" and rest: "writes E w1 objs W1 = (Inr u, w', W')"
    by (auto split: prod.splits sum.splits)
  from write_sample_total [OF step] Cons.IH [OF rest] show ?case by simp
qed

lemma writes_live: "writes E w xs W = (r, w1, W1) \<Longrightarrow> live w \<Longrightarrow> live w1"
proof (induction xs arbitrary: w W)
  case Nil
  then show ?case by simp
next
  case (Cons x xs)
  obtain r2 w2 W2 where step: "write_sample E w x W = (r2, w2, W2)"
    by (cases "write_sample E w x W") auto
  from write_sample_live [OF step Cons.prems(2)] have l2: "live w2" .
  show ?case
  proof (cases r2)
    case (Inl e)
    with step Cons.prems(1) l2 show ?thesis by simp
  next
    case (Inr u)
    with step Cons.prems(1) have "writes E w2 xs W2 = (r, w1, W1)" by simp
    from Cons.IH [OF this l2] show ?thesis .
  qed
qed

lemma init_result:
  assumes "init E pat mc ms k W = (Inr w, W')"
  shows "\<exists>f. py_format E pat (counter W) = Inr f \<and>
    w = \<lparr>kw = k, maxcount = mc, maxsize = ms, tarstream = Attr (Some (fresh W)), pattern = pat,
          total_n = 0, count_n = Attr 0, size_n = Attr 0, fname = Some f,
          shard = Attr (counter W), logger = ''shard-writer(p'' @ dec (pid E) @ '')''\<rparr> \<and>
    W' = \<lparr>counter = counter W + 1, fresh = fresh W + 1,
      trace = trace W @ [EOpen f, ELogInfo ''Opened shard %s.'' (Some f), ETarWriter (fresh W) k]\<rparr>"
  using assms
  by (auto simp: init_def next_stream_def finish_def emit_def Let_def split: sum.splits option.splits)

lemma init_total: "init E pat mc ms k W = (Inr w, W') \<Longrightarrow> total_n w = 0"
  by (auto dest!: init_result)

lemma init_live: "init E pat mc ms k W = (Inr w, W') \<Longrightarrow> live w"
  by (auto simp: live_def dest!: init_result)

lemma write_in_shard:
  assumes "tarstream w = Attr (Some h)" and "count_n w = Attr c" and "size_n w = Attr s"
    and "c < maxcount w" and "\<not> int_ge_float s (maxsize w)"
    and "tar_write E (trace W) h x = Inr n"
  shows "write_sample E w x W =
    (Inr (), w\<lparr>count_n := Attr (c + 1), total_n := total_n w + 1, size_n := Attr (s + n)\<rparr>,
     W\<lparr>trace := trace W @ [ETarWrite h x]\<rparr>)"
  using assms by (simp add: write_sample_def write_record_def rotation_due_def emit_def)

lemma rotate_ok:
  assumes "tarstream w = Attr (Some h)" and "fname w = Some g"
    and "tar_close E (trace W) h = None"
    and "py_format E (pattern w) (counter W) = Inr f"
    and "fs_open E (trace W @ [ETarClose h, ELogInfo ''Closed shard %s.'' (Some g)]) f = None"
    and "tar_init E (trace W @ [ETarClose h, ELogInfo ''Closed shard %s.'' (Some g), EOpen f,
           ELogInfo ''Opened shard %s.'' (Some f)]) (fresh W) (kw w) = None"
  shows "next_stream E w W =
    (Inr (), w\<lparr>tarstream := Attr (Some (fresh W)), count_n := Attr 0, size_n := Attr 0,
               fname := Some f, shard := Attr (counter W)\<rparr>,
     \<lparr>counter = counter W + 1, fresh = fresh W + 1,
      trace = trace W @ [ETarClose h, ELogInfo ''Closed shard %s.'' (Some g), EOpen f,
           ELogInfo ''Opened shard %s.'' (Some f), ETarWriter (fresh W) (kw w)]\<rparr>)"
  using assms by (simp add: next_stream_def finish_def emit_def Let_def)

lemma write_rotating:
  assumes "tarstream w = Attr (Some h)" and "fname w = Some g" and "count_n w = Attr c"
    and "maxcount w \<le> c"
    and "tar_close E (trace W) h = None"
    and "py_format E (pattern w) (counter W) = Inr f"
    and "fs_open E (trace W @ [ETarClose h, ELogInfo ''Closed shard %s.'' (Some g)]) f = None"
    and "tar_init E (trace W @ [ETarClose h, ELogInfo ''Closed shard %s.'' (Some g), EOpen f,
           ELogInfo ''Opened shard %s.'' (Some f)]) (fresh W) (kw w) = None"
    and "tar_write E (trace W @ [ETarClose h, ELogInfo ''Closed shard %s.'' (Some g), EOpen f,
           ELogInfo ''Opened shard %s.'' (Some f), ETarWriter (fresh W) (kw w)]) (fresh W) x = Inr n"
  shows "write_sample E w x W =
    (Inr (), w\<lparr>tarstream := Attr (Some (fresh W)), count_n := Attr 1, size_n := Attr n,
               fname := Some f, shard := Attr (counter W), total_n := total_n w + 1\<rparr>,
     \<lparr>counter = counter W + 1, fresh = fresh W + 1,
      trace = trace W @ [ETarClose h, ELogInfo ''Closed shard %s.'' (Some g), EOpen f,
           ELogInfo ''Opened shard %s.'' (Some f), ETarWriter (fresh W) (kw w), ETarWrite (fresh W) x]\<rparr>)"
  using assms by (simp add: write_sample_def rotation_due_def rotate_ok write_record_def emit_def)

lemma close_live:
  assumes "live w" and "tarstream w = Attr (Some h)"
  shows "close E w W =
    (case tar_close E (trace W) h of
       None \<Rightarrow> (Inr (), w\<lparr>tarstream := Absent, shard := Absent, count_n := Absent, size_n := Absent\<rparr>,
                W\<lparr>trace := trace W @ [ETarClose h, ELogInfo ''Closed shard %s.'' (fname w)]\<rparr>)
     | Some e \<Rightarrow> (Inl e, w, W\<lparr>trace := trace W @ [ETarClose h]\<rparr>))"
  using assms
  by (auto simp: close_def finish_def live_def emit_def Let_def split: option.splits attr.splits)

lemma py_segments_literal: "CHR ''%'' \<notin> set p \<Longrightarrow> py_segments p = Some (map Lit p)"
  by (induction p) (auto simp: py_segments.simps)

lemma py_format_literal:
  "CHR ''%'' \<notin> set p \<Longrightarrow>
   py_format E p i = Inl (TypeError ''not all arguments converted during string formatting'')"
  by (simp add: py_format_def py_segments_literal is_conv_def filter_map comp_def)

section \<open>The example run\<close>

lemma example_init_ok:
  "init example_env ''shard-%06d.tar'' 2 (Finite 100) () example_world =
     (Inr (projr (fst example_init)), snd example_init)"
  unfolding example_init_def by code_simp

lemma example_run_ok:
  "writes example_env (projr (fst example_init)) [5, 5] (snd example_init) =
     (Inr (), fst (snd example_run), snd (snd example_run))"
  unfolding example_run_def example_init_def by code_simp


section \<open>Construction\<close>



text \<open>
  Claim C9. A pattern with no substitution site (no \<open>%\<close> in it) makes the
  construction raise the \<open>TypeError\<close> of the formatting operation of the first
  rotation: when it is raised the shard index has already been claimed (the counter
  is one higher) and nothing has been opened. There is no check of the pattern before
  that.
\<close>

theorem pattern_error_at_first_rotation:
  assumes "CHR ''%'' \<notin> set pat"
  shows "init E pat mc ms k W =
    (Inl (TypeError ''not all arguments converted during string formatting''),
     W\<lparr>counter := counter W + 1\<rparr>)"
  by (simp add: init_def next_stream_def finish_def Let_def py_format_literal [OF assms])

theorem pattern_error_at_first_rotation_witness:
  "CHR ''%'' \<notin> set ''shard.tar'' \<and>
   init example_env ''shard.tar'' 2 (Finite 100) () example_world =
    (Inl (TypeError ''not all arguments converted during string formatting''),
     example_world\<lparr>counter := counter example_world + 1\<rparr>)"
proof -
  have a: "CHR ''%'' \<notin> set ''shard.tar''" by simp
  from pattern_error_at_first_rotation [OF a, of example_env 2 "Finite 100" "()" example_world] a
  show ?thesis by simp
qed

section \<open>Writing\<close>

text \<open>
  Claim C4. After a successful construction and \<open>W\<close> calls of \<open>write\<close> none of
  which raises, the lifetime total is \<open>W\<close>, whatever rotations happened.
\<close>

theorem lifetime_total:
  assumes "init E pat mc ms k W = (Inr w0, W0)"
    and "writes E w0 objs W0 = (Inr u, w', W')"
  shows "total_n w' = int (length objs)"
  using init_total [OF assms(1)] writes_total [OF assms(2)] by simp

theorem lifetime_total_witness:
  "\<exists>w0 W0 w' W'.
     init example_env ''shard-%06d.tar'' 2 (Finite 100) () example_world = (Inr w0, W0) \<and>
     writes example_env w0 [5, 5] W0 = (Inr (), w', W') \<and>
     total_n w' = int (length [5, 5 :: int])"
  using lifetime_total [OF example_init_ok example_run_ok] example_init_ok example_run_ok
  by blast

text \<open>
  Claim C2. The thresholds are tested before the record is handed to the archive
  writer. With \<open>maxcount = 1000\<close> and \<open>maxsize = 10\<close> and two writes for which the
  archive writer reports 6 bytes each: the first write brings the size to 6, the test
  of the second write is false, the second write goes to the same shard without a
  rotation (no new event but the two writes, the counter and the shard index
  unchanged) and brings its size to 12; the test is true only for the write after.
\<close>

theorem soft_size_cap:
  assumes "init E pat 1000 (Finite 10) k W = (Inr w0, W0)"
    and "tar_write E (trace W0) (fresh W) a = Inr 6"
    and "tar_write E (trace W0 @ [ETarWrite (fresh W) a]) (fresh W) b = Inr 6"
  shows "write_sample E w0 a W0 =
           (Inr (), w0\<lparr>count_n := Attr 1, total_n := 1, size_n := Attr 6\<rparr>,
            W0\<lparr>trace := trace W0 @ [ETarWrite (fresh W) a]\<rparr>) \<and>
         rotation_due (w0\<lparr>count_n := Attr 1, total_n := 1, size_n := Attr 6\<rparr>) = Inr False \<and>
         writes E w0 [a, b] W0 =
           (Inr (), w0\<lparr>count_n := Attr 2, total_n := 2, size_n := Attr 12\<rparr>,
            W0\<lparr>trace := trace W0 @ [ETarWrite (fresh W) a, ETarWrite (fresh W) b]\<rparr>) \<and>
         shard (w0\<lparr>count_n := Attr 2, total_n := 2, size_n := Attr 12\<rparr>) = Attr (counter W) \<and>
         rotation_due (w0\<lparr>count_n := Attr 2, total_n := 2, size_n := Attr 12\<rparr>) = Inr True"
proof -
  from init_result [OF assms(1)] obtain f where
    w0: "w0 = \<lparr>kw = k, maxcount = 1000, maxsize = Finite 10, tarstream = Attr (Some (fresh W)),
          pattern = pat, total_n = 0, count_n = Attr 0, size_n = Attr 0, fname = Some f,
          shard = Attr (counter W), logger = ''shard-writer(p'' @ dec (pid E) @ '')''\<rparr>"
    and W0: "W0 = \<lparr>counter = counter W + 1, fresh = fresh W + 1,
      trace = trace W @ [EOpen f, ELogInfo ''Opened shard %s.'' (Some f), ETarWriter (fresh W) k]\<rparr>"
    by blast
  show ?thesis
    using assms(2,3) unfolding w0 W0
    by (simp add: write_sample_def write_record_def rotation_due_def emit_def)
qed

theorem soft_size_cap_witness:
  "\<exists>w0 W0.
     init example_env ''shard-%06d.tar'' 1000 (Finite 10) () example_world = (Inr w0, W0) \<and>
     tar_write example_env (trace W0) (fresh example_world) 6 = Inr 6 \<and>
     tar_write example_env (trace W0 @ [ETarWrite (fresh example_world) 6]) (fresh example_world) 6 = Inr 6 \<and>
     writes example_env w0 [6, 6] W0 =
       (Inr (), w0\<lparr>count_n := Attr 2, total_n := 2, size_n := Attr 12\<rparr>,
        W0\<lparr>trace := trace W0 @ [ETarWrite (fresh example_world) 6, ETarWrite (fresh example_world) 6]\<rparr>) \<and>
     rotation_due (w0\<lparr>count_n := Attr 1, total_n := 1, size_n := Attr 6\<rparr>) = Inr False \<and>
     rotation_due (w0\<lparr>count_n := Attr 2, total_n := 2, size_n := Attr 12\<rparr>) = Inr True"
proof -
  define R where "R = init example_env ''shard-%06d.tar'' 1000 (Finite 10) () example_world"
  have a: "init example_env ''shard-%06d.tar'' 1000 (Finite 10) () example_world =
      (Inr (projr (fst R)), snd R)"
    unfolding R_def by code_simp
  have b: "tar_write example_env (trace (snd R)) (fresh example_world) 6 = Inr 6"
    by (simp add: example_env_def)
  have c: "tar_write example_env (trace (snd R) @ [ETarWrite (fresh example_world) 6])
      (fresh example_world) 6 = Inr 6"
    by (simp add: example_env_def)
  from soft_size_cap [OF a b c] a b c show ?thesis by blast
qed

text \<open>
  Claim C3. With \<open>maxcount = 3\<close> (and the default \<open>maxsize\<close>), seven writes for
  which the archive writer reports one byte each give three shards with three, three
  and one records: the writer rotates at the head of the fourth and of the seventh
  call. The hypotheses say that the three file names format and that \<open>open\<close> and
  the archive writer's constructor and \<open>close\<close> do not raise.
\<close>

theorem count_rotation:
  assumes init: "init E pat 3 (Finite 3000000000) k W = (Inr w0, W0)"
    and f0: "py_format E pat (counter W) = Inr f0"
    and f1: "py_format E pat (counter W + 1) = Inr f1"
    and f2: "py_format E pat (counter W + 2) = Inr f2"
    and opn: "\<And>t f. fs_open E t f = None"
    and tin: "\<And>t s. tar_init E t s k = None"
    and tcl: "\<And>t h. tar_close E t h = None"
    and twr: "\<And>t h x. x \<in> set [x1, x2, x3, x4, x5, x6, x7] \<Longrightarrow> tar_write E t h x = Inr 1"
  shows "writes E w0 [x1, x2, x3, x4, x5, x6, x7] W0 =
    (Inr (),
     w0\<lparr>tarstream := Attr (Some (fresh W + 2)), count_n := Attr 1, size_n := Attr 1,
        fname := Some f2, shard := Attr (counter W + 2), total_n := 7\<rparr>,
     \<lparr>counter = counter W + 3, fresh = fresh W + 3,
      trace = trace W @
        [EOpen f0, ELogInfo ''Opened shard %s.'' (Some f0), ETarWriter (fresh W) k,
         ETarWrite (fresh W) x1, ETarWrite (fresh W) x2, ETarWrite (fresh W) x3,
         ETarClose (fresh W), ELogInfo ''Closed shard %s.'' (Some f0),
         EOpen f1, ELogInfo ''Opened shard %s.'' (Some f1), ETarWriter (fresh W + 1) k,
         ETarWrite (fresh W + 1) x4, ETarWrite (fresh W + 1) x5, ETarWrite (fresh W + 1) x6,
         ETarClose (fresh W + 1), ELogInfo ''Closed shard %s.'' (Some f1),
         EOpen f2, ELogInfo ''Opened shard %s.'' (Some f2), ETarWriter (fresh W + 2) k,
         ETarWrite (fresh W + 2) x7]\<rparr>)"
proof -
  from init_result [OF init] f0 have
    w0: "w0 = \<lparr>kw = k, maxcount = 3, maxsize = Finite 3000000000,
          tarstream = Attr (Some (fresh W)), pattern = pat,
          total_n = 0, count_n = Attr 0, size_n = Attr 0, fname = Some f0,
          shard = Attr (counter W), logger = ''shard-writer(p'' @ dec (pid E) @ '')''\<rparr>"
    and W0: "W0 = \<lparr>counter = counter W + 1, fresh = fresh W + 1,
      trace = trace W @ [EOpen f0, ELogInfo ''Opened shard %s.'' (Some f0), ETarWriter (fresh W) k]\<rparr>"
    by auto
  have g1: "py_format E pat (1 + counter W) = Inr f1" using f1 by (simp add: add.commute)
  have g2: "py_format E pat (2 + counter W) = Inr f2" using f2 by (simp add: add.commute)
  have wr: "\<And>t h. tar_write E t h x1 = Inr 1" "\<And>t h. tar_write E t h x2 = Inr 1"
    "\<And>t h. tar_write E t h x3 = Inr 1" "\<And>t h. tar_write E t h x4 = Inr 1"
    "\<And>t h. tar_write E t h x5 = Inr 1" "\<And>t h. tar_write E t h x6 = Inr 1"
    "\<And>t h. tar_write E t h x7 = Inr 1"
    by (simp_all add: twr)
  show ?thesis
    unfolding w0 W0
    by (simp add: write_in_shard write_rotating f1 f2 g1 g2 opn tin tcl wr add.commute)
qed

theorem count_rotation_witness:
  "\<exists>w0 W0.
     init example_env ''s%d.tar'' 3 (Finite 3000000000) () example_world = (Inr w0, W0) \<and>
     py_format example_env ''s%d.tar'' (counter example_world) = Inr ''s3.tar'' \<and>
     py_format example_env ''s%d.tar'' (counter example_world + 1) = Inr ''s4.tar'' \<and>
     py_format example_env ''s%d.tar'' (counter example_world + 2) = Inr ''s5.tar'' \<and>
     writes example_env w0 [1, 1, 1, 1, 1, 1, 1] W0 =
      (Inr (),
       w0\<lparr>tarstream := Attr (Some (fresh example_world + 2)), count_n := Attr 1, size_n := Attr 1,
          fname := Some ''s5.tar'', shard := Attr (counter example_world + 2), total_n := 7\<rparr>,
       \<lparr>counter = counter example_world + 3, fresh = fresh example_world + 3,
        trace = trace example_world @
          [EOpen ''s3.tar'', ELogInfo ''Opened shard %s.'' (Some ''s3.tar''),
           ETarWriter (fresh example_world) (),
           ETarWrite (fresh example_world) 1, ETarWrite (fresh example_world) 1,
           ETarWrite (fresh example_world) 1,
           ETarClose (fresh example_world), ELogInfo ''Closed shard %s.'' (Some ''s3.tar''),
           EOpen ''s4.tar'', ELogInfo ''Opened shard %s.'' (Some ''s4.tar''),
           ETarWriter (fresh example_world + 1) (),
           ETarWrite (fresh example_world + 1) 1, ETarWrite (fresh example_world + 1) 1,
           ETarWrite (fresh example_world + 1) 1,
           ETarClose (fresh example_world + 1), ELogInfo ''Closed shard %s.'' (Some ''s4.tar''),
           EOpen ''s5.tar'', ELogInfo ''Opened shard %s.'' (Some ''s5.tar''),
           ETarWriter (fresh example_world + 2) (),
           ETarWrite (fresh example_world + 2) 1]\<rparr>)"
proof -
  define R where "R = init example_env ''s%d.tar'' 3 (Finite 3000000000) () example_world"
  have a: "init example_env ''s%d.tar'' 3 (Finite 3000000000) () example_world =
      (Inr (projr (fst R)), snd R)"
    unfolding R_def by code_simp
  have f0: "py_format example_env ''s%d.tar'' (counter example_world) = Inr ''s3.tar''"
    by code_simp
  have f1: "py_format example_env ''s%d.tar'' (counter example_world + 1) = Inr ''s4.tar''"
    by code_simp
  have f2: "py_format example_env ''s%d.tar'' (counter example_world + 2) = Inr ''s5.tar''"
    by code_simp
  have opn: "\<And>t f. fs_open example_env t f = None" by (simp add: example_env_def)
  have tin: "\<And>t s. tar_init example_env t s () = None" by (simp add: example_env_def)
  have tcl: "\<And>t h. tar_close example_env t h = None" by (simp add: example_env_def)
  have twr: "\<And>t h x. x \<in> set [1, 1, 1, 1, 1, 1, 1 :: int] \<Longrightarrow> tar_write example_env t h x = Inr 1"
    by (auto simp: example_env_def)
  from count_rotation [OF a f0 f1 f2 opn tin tcl twr] a f0 f1 f2 show ?thesis by blast
qed




section \<open>Finishing and closing\<close>

text \<open>
  Claim C6. \<open>finish\<close> on an instance with no open stream changes nothing and raises
  nothing. When a call of \<open>finish\<close> returns, a second call right after it finds no
  open stream, changes nothing and raises nothing, so the two calls together close
  the archive writer once if a stream was open (the one \<open>ETarClose\<close> of the first
  call) and not at all otherwise.
\<close>

theorem finish_idempotent:
  "(tarstream w = Attr None \<longrightarrow> finish E w W = (Inr (), w, W)) \<and>
   (finish E w W = (Inr u, w1, W1) \<longrightarrow>
      finish_twice E w W = (Inr (), w1, W1) \<and>
      finish E w1 W1 = (Inr (), w1, W1) \<and>
      tarstream w1 = Attr None \<and>
      trace W1 = trace W @
        (case tarstream w of
           Attr (Some h) \<Rightarrow> [ETarClose h, ELogInfo ''Closed shard %s.'' (fname w)]
         | _ \<Rightarrow> []))"
  by (auto simp: finish_twice_def finish_def emit_def Let_def split: attr.splits option.splits)

theorem finish_idempotent_witness:
  "\<exists>w1 W1.
     finish example_env (projr (fst example_init)) (snd example_init) = (Inr (), w1, W1) \<and>
     finish_twice example_env (projr (fst example_init)) (snd example_init) = (Inr (), w1, W1) \<and>
     finish example_env w1 W1 = (Inr (), w1, W1) \<and>
     tarstream w1 = Attr None \<and>
     trace W1 = trace (snd example_init) @
       [ETarClose 0, ELogInfo ''Closed shard %s.'' (Some ''shard-000003.tar'')]"
proof -
  define F where "F = finish example_env (projr (fst example_init)) (snd example_init)"
  have a: "finish example_env (projr (fst example_init)) (snd example_init) =
      (Inr (), fst (snd F), snd (snd F))"
    unfolding F_def example_init_def by code_simp
  have t: "tarstream (projr (fst example_init)) = Attr (Some 0)"
    unfolding example_init_def by code_simp
  have f: "fname (projr (fst example_init)) = Some ''shard-000003.tar''"
    unfolding example_init_def by code_simp
  from finish_idempotent [of "projr (fst example_init)" example_env "snd example_init"
      "()" "fst (snd F)" "snd (snd F)"] a t f
  have "finish example_env (projr (fst example_init)) (snd example_init) =
          (Inr (), fst (snd F), snd (snd F)) \<and>
        finish_twice example_env (projr (fst example_init)) (snd example_init) =
          (Inr (), fst (snd F), snd (snd F)) \<and>
        finish example_env (fst (snd F)) (snd (snd F)) = (Inr (), fst (snd F), snd (snd F)) \<and>
        tarstream (fst (snd F)) = Attr None \<and>
        trace (snd (snd F)) = trace (snd example_init) @
          [ETarClose 0, ELogInfo ''Closed shard %s.'' (Some ''shard-000003.tar'')]"
    by simp
  then show ?thesis by blast
qed

text \<open>
  Claim C10. When \<open>close\<close> has returned, \<open>tarstream\<close>, \<open>shard\<close>, \<open>count\<close>
  and \<open>size\<close> are deleted, and every later call of \<open>write\<close>, \<open>finish\<close>,
  \<open>close\<close> or \<open>__exit__\<close> on the instance raises \<open>AttributeError\<close> and changes
  nothing; so does the \<open>__exit__\<close> of a \<open>with\<close> block whose body closed the
  instance. \<open>close\<close> is not idempotent.
\<close>

theorem use_after_close:
  assumes "close E w W = (Inr u, w1, W1)"
  shows "tarstream w1 = Absent \<and> shard w1 = Absent \<and> count_n w1 = Absent \<and> size_n w1 = Absent \<and>
         write_sample E w1 obj W2 = (Inl (AttributeError ''tarstream''), w1, W2) \<and>
         finish E w1 W2 = (Inl (AttributeError ''tarstream''), w1, W2) \<and>
         close E w1 W2 = (Inl (AttributeError ''tarstream''), w1, W2) \<and>
         exit_ctx E w1 W2 = (Inl (AttributeError ''tarstream''), w1, W2) \<and>
         with_block E w (close E) W = (Inl (AttributeError ''tarstream''), w1, W1)"
proof -
  from assms have gone: "tarstream w1 = Absent" "shard w1 = Absent" "count_n w1 = Absent"
      "size_n w1 = Absent"
    by (auto simp: close_def Let_def split: prod.splits sum.splits attr.splits)
  have fin: "finish E w1 V = (Inl (AttributeError ''tarstream''), w1, V)" for V
    by (simp add: finish_def gone)
  have cl: "close E w1 V = (Inl (AttributeError ''tarstream''), w1, V)" for V
    by (simp add: close_def fin)
  have wr: "write_sample E w1 obj W2 = (Inl (AttributeError ''tarstream''), w1, W2)"
    by (simp add: write_sample_def rotation_due_def gone)
  have wb: "with_block E w (close E) W = (Inl (AttributeError ''tarstream''), w1, W1)"
    by (simp add: with_block_def enter_def exit_ctx_def assms cl)
  show ?thesis
    by (simp add: gone fin cl wr wb exit_ctx_def)
qed

theorem use_after_close_witness:
  "\<exists>w1 W1.
     close example_env (projr (fst example_init)) (snd example_init) = (Inr (), w1, W1) \<and>
     tarstream w1 = Absent \<and> shard w1 = Absent \<and> count_n w1 = Absent \<and> size_n w1 = Absent \<and>
     write_sample example_env w1 5 W1 = (Inl (AttributeError ''tarstream''), w1, W1) \<and>
     finish example_env w1 W1 = (Inl (AttributeError ''tarstream''), w1, W1) \<and>
     close example_env w1 W1 = (Inl (AttributeError ''tarstream''), w1, W1) \<and>
     exit_ctx example_env w1 W1 = (Inl (AttributeError ''tarstream''), w1, W1) \<and>
     with_block example_env (projr (fst example_init)) (close example_env) (snd example_init) =
       (Inl (AttributeError ''tarstream''), w1, W1)"
proof -
  define C where "C = close example_env (projr (fst example_init)) (snd example_init)"
  have a: "close example_env (projr (fst example_init)) (snd example_init) =
      (Inr (), fst (snd C), snd (snd C))"
    unfolding C_def example_init_def by code_simp
  from use_after_close [OF a, of 5 "snd (snd C)"] a show ?thesis by blast
qed

text \<open>
  Claim C7. A writer used in a \<open>with\<close> block whose body is a sequence of writes: when
  the body ends, by returning or because a write raised, with a shard open, leaving the
  block calls the archive writer's \<open>close\<close> for that shard exactly once (the one
  \<open>ETarClose\<close> appended to the trace). If that call returns, the block ends as the
  body did, with the body's exception if there was one, and the instance is closed.
\<close>

theorem scoped_cleanup:
  assumes "init E pat mc ms k W0 = (Inr w, W)"
    and "writes E w objs W = (r, w1, W1)"
    and "tarstream w1 = Attr (Some h)"
  shows "with_block E w (\<lambda>v. writes E v objs) W =
    (case tar_close E (trace W1) h of
       None \<Rightarrow> (r, w1\<lparr>tarstream := Absent, shard := Absent, count_n := Absent, size_n := Absent\<rparr>,
                W1\<lparr>trace := trace W1 @ [ETarClose h, ELogInfo ''Closed shard %s.'' (fname w1)]\<rparr>)
     | Some e \<Rightarrow> (Inl e, w1, W1\<lparr>trace := trace W1 @ [ETarClose h]\<rparr>))"
proof -
  from writes_live [OF assms(2) init_live [OF assms(1)]] have "live w1" .
  from close_live [OF this assms(3)]
  have "close E w1 W1 =
    (case tar_close E (trace W1) h of
       None \<Rightarrow> (Inr (), w1\<lparr>tarstream := Absent, shard := Absent, count_n := Absent, size_n := Absent\<rparr>,
                W1\<lparr>trace := trace W1 @ [ETarClose h, ELogInfo ''Closed shard %s.'' (fname w1)]\<rparr>)
     | Some e \<Rightarrow> (Inl e, w1, W1\<lparr>trace := trace W1 @ [ETarClose h]\<rparr>))" .
  with assms(2) show ?thesis
    by (simp add: with_block_def enter_def exit_ctx_def split: option.splits)
qed

theorem scoped_cleanup_witness:
  "\<exists>w1 W1.
     init example_env ''shard-%06d.tar'' 2 (Finite 100) () example_world =
       (Inr (projr (fst example_init)), snd example_init) \<and>
     writes example_env (projr (fst example_init)) [5, - 1, 5] (snd example_init) =
       (Inl (OSError ''write failed''), w1, W1) \<and>
     tarstream w1 = Attr (Some 0) \<and>
     with_block example_env (projr (fst example_init))
       (\<lambda>v. writes example_env v [5, - 1, 5]) (snd example_init) =
       (Inl (OSError ''write failed''),
        w1\<lparr>tarstream := Absent, shard := Absent, count_n := Absent, size_n := Absent\<rparr>,
        W1\<lparr>trace := trace W1 @ [ETarClose 0, ELogInfo ''Closed shard %s.'' (fname w1)]\<rparr>)"
proof -
  define S where "S = writes example_env (projr (fst example_init)) [5, - 1, 5] (snd example_init)"
  have b: "writes example_env (projr (fst example_init)) [5, - 1, 5] (snd example_init) =
      (Inl (OSError ''write failed''), fst (snd S), snd (snd S))"
    unfolding S_def example_init_def by code_simp
  have c: "tarstream (fst (snd S)) = Attr (Some 0)"
    unfolding S_def example_init_def by code_simp
  have d: "tar_close example_env (trace (snd (snd S))) 0 = None"
    by (simp add: example_env_def)
  from scoped_cleanup [OF example_init_ok b c] d
  have "with_block example_env (projr (fst example_init))
       (\<lambda>v. writes example_env v [5, - 1, 5]) (snd example_init) =
       (Inl (OSError ''write failed''),
        (fst (snd S))\<lparr>tarstream := Absent, shard := Absent, count_n := Absent, size_n := Absent\<rparr>,
        (snd (snd S))\<lparr>trace := trace (snd (snd S)) @
           [ETarClose 0, ELogInfo ''Closed shard %s.'' (fname (fst (snd S)))]\<rparr>)"
    by simp
  with example_init_ok b c show ?thesis by blast
qed

section \<open>Concurrent claims\<close>










end
